theory Spec2Isabelle
  imports Complex_Main "HOL-Library.Sublist"
begin

section \<open>Python string operations used by \<^verbatim>\<open>mapproxy/client/http.py\<close>\<close>

text \<open>
  Strings are character lists. \<open>str_find sub s\<close> is Python's \<^verbatim>\<open>s.find(sub)\<close>, with
  \<open>None\<close> for the result \<^verbatim>\<open>-1\<close>; \<open>str_rfind\<close> is \<^verbatim>\<open>s.rfind(sub)\<close>;
  \<open>str_in sub s\<close> is \<^verbatim>\<open>sub in s\<close>. \<open>split1 sep s\<close> is \<^verbatim>\<open>s.split(sep, 1)\<close> and
  \<open>rsplit1 sep s\<close> is \<^verbatim>\<open>s.rsplit(sep, 1)\<close>, for the non-empty separators the module
  passes: a list of one element when the separator does not occur, of two otherwise.
\<close>

record HTTPClientError =
  message :: string
  response_code :: "int option"
  full_msg :: "string option"

text \<open>
  What a function of the module can raise: the module's own \<^verbatim>\<open>HTTPClientError\<close>, an
  IndexError from subscripting the \<^verbatim>\<open>args\<close> of an exception, a ValueError from
  unpacking, an AttributeError from an attribute that an object does not have, or an
  exception of the transport that no handler catches (one outside \<^verbatim>\<open>Exception\<close>, such
  as KeyboardInterrupt), carried by its name.
\<close>

datatype error =
    Client HTTPClientError
  | IndexError
  | ValueError_unpack
  | AttributeError
  | Uncaught string

fun str_find :: "string \<Rightarrow> string \<Rightarrow> nat option" where
  "str_find sub [] = (if sub = [] then Some 0 else None)"
| "str_find sub (c # cs) =
     (if prefix sub (c # cs) then Some 0 else map_option Suc (str_find sub cs))"

definition str_rfind :: "string \<Rightarrow> string \<Rightarrow> nat option" where
  "str_rfind sub s =
     map_option (\<lambda>i. length s - length sub - i) (str_find (rev sub) (rev s))"

definition str_in :: "string \<Rightarrow> string \<Rightarrow> bool" where
  "str_in sub s = (str_find sub s \<noteq> None)"

definition split1 :: "string \<Rightarrow> string \<Rightarrow> string list" where
  "split1 sep s =
     (case str_find sep s of
        None \<Rightarrow> [s]
      | Some i \<Rightarrow> [take i s, drop (i + length sep) s])"

definition rsplit1 :: "string \<Rightarrow> string \<Rightarrow> string list" where
  "rsplit1 sep s =
     (case str_rfind sep s of
        None \<Rightarrow> [s]
      | Some i \<Rightarrow> [take i s, drop (i + length sep) s])"

text \<open>
  Tuple unpacking \<^verbatim>\<open>a, b = xs\<close>: Python raises ValueError unless \<open>xs\<close> has exactly two
  elements.
\<close>

fun unpack2 :: "'a list \<Rightarrow> error + ('a \<times> 'a)" where
  "unpack2 [a, b] = Inr (a, b)"
| "unpack2 _ = Inl ValueError_unpack"

section \<open>Credential extraction: \<^verbatim>\<open>auth_data_from_url\<close>\<close>

type_synonym credentials = "string option \<times> string option"

definition auth_data_from_url :: "string \<Rightarrow> error + (string \<times> credentials)" where
  "auth_data_from_url url =
     (if url = [] \<or> \<not> str_in ''://'' url then Inr (url, (None, None))
      else
        case unpack2 (split1 ''://'' url) of
          Inl e \<Rightarrow> Inl e
        | Inr (schema, url1) \<Rightarrow>
           (case (if str_in ''/'' url1 then unpack2 (split1 ''/'' url1)
                  else Inr (url1, [])) of
              Inl e \<Rightarrow> Inl e
            | Inr (host, request) \<Rightarrow>
               (case (if str_in ''@'' host then
                        (case unpack2 (rsplit1 ''@'' host) of
                           Inl e \<Rightarrow> Inl e
                         | Inr (auth_data, host1) \<Rightarrow>
                            (if str_in '':'' auth_data then
                               (case unpack2 (split1 '':'' auth_data) of
                                  Inl e \<Rightarrow> Inl e
                                | Inr (username, password) \<Rightarrow>
                                    Inr (Some username, Some password, host1))
                             else Inr (Some auth_data, None, host1)))
                      else Inr (None, None, host)) of
                  Inl e \<Rightarrow> Inl e
                | Inr (username, password, host2) \<Rightarrow>
                    Inr (schema @ ''://'' @ host2 @ ''/'' @ request,
                         (username, password)))))"

section \<open>The session cache: \<^verbatim>\<open>_URLOpenerCache\<close>\<close>

text \<open>
  A \<^verbatim>\<open>requests.Session\<close> as far as the module sets it up. Sessions are objects: the
  cache holds references (natural numbers) into a heap, so that "the same session" is
  equality of references. \<open>session_defaults\<close> is the state of a fresh
  \<^verbatim>\<open>requests.Session()\<close> and \<open>version\<close> the string of \<^verbatim>\<open>mapproxy.version\<close>; both
  come from outside the module.
\<close>

record session =
  cert :: "string option"
  verify :: bool
  auth :: "(string \<times> string) option"
  headers :: "string \<rightharpoonup> string"

record globals =
  version :: string
  session_defaults :: session

type_synonym cache_key = "string option \<times> bool \<times> bool"

record URLOpenerCache =
  opener_dict :: "cache_key \<rightharpoonup> nat"
  heap :: "nat \<rightharpoonup> session"
  next_ref :: nat

definition URLOpenerCache_init :: URLOpenerCache where
  "URLOpenerCache_init = \<lparr>opener_dict = Map.empty, heap = Map.empty, next_ref = 0\<rparr>"

text \<open>Truth value of an optional string: \<^verbatim>\<open>None\<close> and \<^verbatim>\<open>''\<close> are false.\<close>

fun truthy :: "string option \<Rightarrow> bool" where
  "truthy None = False"
| "truthy (Some s) = (s \<noteq> [])"

text \<open>
  \<^verbatim>\<open>__call__\<close>, in two parts. \<open>session_setup\<close> is what the branch of a missing key
  does to the fresh session \<open>s\<close> before it is stored: certificate, verification, basic
  auth (only when both username and password are true values) and the User-Agent header;
  the branch for \<^verbatim>\<open>manage_cookies\<close> does nothing. \<open>create_url_opener\<close> is the whole
  method on the one cache of the module: a session object is allocated on every call,
  and it is set up and stored only when the key is not in the dictionary.
\<close>

definition session_setup ::
  "globals \<Rightarrow> string option \<Rightarrow> string option \<Rightarrow> string option \<Rightarrow> bool \<Rightarrow> bool \<Rightarrow> session" where
  "session_setup g ssl_ca_certs username password insecure manage_cookies =
     (let s = session_defaults g;
          s1 = (if truthy ssl_ca_certs then s\<lparr>cert := ssl_ca_certs\<rparr> else s);
          s2 = (if insecure then s1\<lparr>verify := False\<rparr> else s1);
          s3 = (case (username, password) of
                  (Some u, Some p) \<Rightarrow>
                    if u \<noteq> [] \<and> p \<noteq> [] then s2\<lparr>auth := Some (u, p)\<rparr> else s2
                | _ \<Rightarrow> s2)
      in s3\<lparr>headers := (headers s3)(''User-Agent'' \<mapsto> ''MapProxy-'' @ version g)\<rparr>)"

definition create_url_opener ::
  "globals \<Rightarrow> URLOpenerCache \<Rightarrow> string option \<Rightarrow> string option \<Rightarrow> string option \<Rightarrow>
   string option \<Rightarrow> bool \<Rightarrow> bool \<Rightarrow> nat \<times> URLOpenerCache" where
  "create_url_opener g st ssl_ca_certs url username password insecure manage_cookies =
     (let r = next_ref st;
          st1 = st\<lparr>heap := (heap st)(r \<mapsto> session_defaults g), next_ref := Suc r\<rparr>;
          cache_key = (ssl_ca_certs, insecure, manage_cookies)
      in if cache_key \<notin> dom (opener_dict st1) then
           (r, st1\<lparr>heap := (heap st1)(r \<mapsto> session_setup g ssl_ca_certs username password
                                                insecure manage_cookies),
                   opener_dict := (opener_dict st1)(cache_key \<mapsto> r)\<rparr>)
         else
           (case opener_dict st1 cache_key of
              Some opener \<Rightarrow> (opener, st1)
            | None \<Rightarrow> (r, st1)))"

text \<open>A sequence of calls of the cache, each with its six arguments.\<close>

type_synonym opener_args =
  "string option \<times> string option \<times> string option \<times> string option \<times> bool \<times> bool"

fun call_opener :: "globals \<Rightarrow> URLOpenerCache \<Rightarrow> opener_args \<Rightarrow> nat \<times> URLOpenerCache" where
  "call_opener g st (ca, url, username, password, insecure, manage_cookies) =
     create_url_opener g st ca url username password insecure manage_cookies"

fun call_key :: "opener_args \<Rightarrow> cache_key" where
  "call_key (ca, url, username, password, insecure, manage_cookies) =
     (ca, insecure, manage_cookies)"

fun calls :: "globals \<Rightarrow> URLOpenerCache \<Rightarrow> opener_args list \<Rightarrow> URLOpenerCache" where
  "calls g st [] = st"
| "calls g st (c # cs) = calls g (snd (call_opener g st c)) cs"

section \<open>The client: \<^verbatim>\<open>HTTPClient\<close>\<close>

text \<open>
  The transport is the \<^verbatim>\<open>requests\<close> library: the sessions of the cache are
  \<^verbatim>\<open>requests.Session\<close> objects, \<^verbatim>\<open>open\<close> builds a \<^verbatim>\<open>requests.Request\<close> and what
  \<^verbatim>\<open>send\<close> returns is a \<^verbatim>\<open>requests.Response\<close>. The library is outside the module;
  the model holds of it what the module touches.

  A response has the attributes \<^verbatim>\<open>status_code\<close>, \<^verbatim>\<open>headers\<close> and \<^verbatim>\<open>content\<close>. It
  has no attribute \<^verbatim>\<open>code\<close> and no method \<^verbatim>\<open>read\<close>, and its class defines no
  \<^verbatim>\<open>__getattr__\<close>. The headers are looked up without regard to the case of the name:
  \<open>resp_headers\<close> maps the name in lower case to the value.

  What the transport raises is told apart by the handlers of \<^verbatim>\<open>open\<close>, in their order:
  \<^verbatim>\<open>urllib\<close>'s HTTPError with its \<^verbatim>\<open>code\<close>, \<^verbatim>\<open>urllib\<close>'s URLError with its
  \<^verbatim>\<open>reason\<close>, ValueError with its \<^verbatim>\<open>args\<close>, any other Exception with its
  \<^verbatim>\<open>repr\<close>, and an exception outside Exception. The exceptions of \<^verbatim>\<open>requests\<close> for
  a URL that cannot be used (InvalidURL, MissingSchema) derive from ValueError; its
  ConnectionError (connection refused, name not resolved), Timeout and SSLError derive
  from IOError and from neither class of \<^verbatim>\<open>urllib\<close>. The reason of a URLError is an
  exception object (is it an \<^verbatim>\<open>ssl.SSLError\<close>, its \<^verbatim>\<open>args\<close>, its \<^verbatim>\<open>str\<close>) or a
  plain string, which has no \<^verbatim>\<open>args\<close>. Elements of \<^verbatim>\<open>args\<close> are kept as the text
  that \<^verbatim>\<open>%s\<close> formatting gives them.
\<close>

record response =
  status_code :: int
  resp_headers :: "string \<rightharpoonup> string"
  resp_content :: string

datatype url_reason =
    ReasonExc bool "string list" string
  | ReasonStr string

datatype transport_exc =
    HTTPError int
  | URLError url_reason
  | ValueError "string list"
  | ConnectionError string
  | Timeout string
  | SSLError string
  | OtherException string
  | NonException string

record request =
  req_url :: string
  req_data :: "string option"
  req_headers :: "string \<rightharpoonup> string"
  req_method :: "string option"

record log_entry =
  log_url :: string
  log_code :: "int option"
  log_result :: "response option"
  log_duration :: real
  log_method :: "string option"

text \<open>
  The environment of one call of \<^verbatim>\<open>open\<close>: what preparing and sending the request
  on the session behind a reference gives, and the two readings of \<^verbatim>\<open>time.time()\<close>,
  the first before the request is sent and the second in the \<^verbatim>\<open>finally\<close> clause.
\<close>

record env =
  send :: "nat \<Rightarrow> request \<Rightarrow> real option \<Rightarrow> transport_exc + response"
  time_start :: real
  time_end :: real

record HTTPClient =
  timeout :: "real option"
  opener :: nat
  header_list :: "(string \<times> string) list"
  hide_error_details :: bool

text \<open>\<^verbatim>\<open>xs[i]\<close>, with \<open>None\<close> for IndexError.\<close>

definition subscript :: "'a list \<Rightarrow> nat \<Rightarrow> 'a option" where
  "subscript xs i = (if i < length xs then Some (xs ! i) else None)"

text \<open>\<^verbatim>\<open>str(n)\<close> of an integer, in decimal.\<close>

fun str_nat :: "nat \<Rightarrow> string" where
  "str_nat n =
     (if n < 10 then [char_of (48 + n)]
      else str_nat (n div 10) @ [char_of (48 + n mod 10)])"

declare str_nat.simps [simp del]

definition str_int :: "int \<Rightarrow> string" where
  "str_int i = (if i < 0 then CHR ''-'' # str_nat (nat (- i)) else str_nat (nat i))"

text \<open>\<^verbatim>\<open>s.lower()\<close> on the characters of Latin-1.\<close>

definition lower_char :: "char \<Rightarrow> char" where
  "lower_char c =
     (let n = (of_char c :: nat)
      in if (65 \<le> n \<and> n \<le> 90) \<or> (192 \<le> n \<and> n \<le> 222 \<and> n \<noteq> 215)
         then char_of (n + 32) else c)"

definition str_lower :: "string \<Rightarrow> string" where
  "str_lower s = map lower_char s"

abbreviation dquote :: string where
  "dquote \<equiv> [CHR 0x22]"

definition handle_url_exception ::
  "HTTPClient \<Rightarrow> string \<Rightarrow> string \<Rightarrow> string \<Rightarrow> int option \<Rightarrow> HTTPClientError" where
  "handle_url_exception self url msg reason code =
     (let full = msg @ '' '' @ dquote @ url @ dquote @ '': '' @ reason
      in if hide_error_details self then
           \<lparr>message = msg @ '' (see logs for URL and reason).'',
            response_code = code, full_msg = Some full\<rparr>
         else
           \<lparr>message = full, response_code = code, full_msg = None\<rparr>)"

text \<open>
  The attributes of a response that hold an integer, by name: \<^verbatim>\<open>status_code\<close> and no
  other. \<open>getattr_code\<close> is \<^verbatim>\<open>getattr(result, 'code', 200)\<close>. \<open>response_read\<close> is
  \<^verbatim>\<open>resp.read()\<close>: the object has no such method and the call raises AttributeError.
\<close>

definition response_attr :: "response \<Rightarrow> string \<Rightarrow> int option" where
  "response_attr result name =
     (if name = ''status_code'' then Some (status_code result) else None)"

definition getattr_code :: "response \<Rightarrow> int" where
  "getattr_code result =
     (case response_attr result ''code'' of Some c \<Rightarrow> c | None \<Rightarrow> 200)"

definition response_read :: "response \<Rightarrow> error + string" where
  "response_read resp = Inl AttributeError"

text \<open>
  The handlers of \<^verbatim>\<open>open\<close> for what the transport raised: the exception that leaves
  \<^verbatim>\<open>open\<close> and the value of \<^verbatim>\<open>code\<close> when the \<^verbatim>\<open>finally\<close> clause runs.
\<close>

fun handle_transport_exc ::
  "HTTPClient \<Rightarrow> string \<Rightarrow> transport_exc \<Rightarrow> error \<times> int option" where
  "handle_transport_exc self url (HTTPError code) =
     (Client (handle_url_exception self url ''HTTP Error'' (str_int code) (Some code)),
      Some code)"
| "handle_transport_exc self url (URLError (ReasonExc is_ssl args txt)) =
     (if is_ssl then
        (case subscript args 1 of
           None \<Rightarrow> (IndexError, None)
         | Some a \<Rightarrow>
             (Client (handle_url_exception self url
                        ''Could not verify connection to URL'' a None), None))
      else
        (let reason = (case subscript args 1 of Some a \<Rightarrow> a | None \<Rightarrow> txt)
         in (Client (handle_url_exception self url ''No response from URL'' reason None),
             None)))"
| "handle_transport_exc self url (URLError (ReasonStr txt)) =
     (Client (handle_url_exception self url ''No response from URL'' txt None), None)"
| "handle_transport_exc self url (ValueError args) =
     (case subscript args 0 of
        None \<Rightarrow> (IndexError, None)
      | Some a \<Rightarrow>
          (Client (handle_url_exception self url ''URL not correct'' a None), None))"
| "handle_transport_exc self url (ConnectionError r) =
     (Client (handle_url_exception self url ''Internal HTTP error'' r None), None)"
| "handle_transport_exc self url (Timeout r) =
     (Client (handle_url_exception self url ''Internal HTTP error'' r None), None)"
| "handle_transport_exc self url (SSLError r) =
     (Client (handle_url_exception self url ''Internal HTTP error'' r None), None)"
| "handle_transport_exc self url (OtherException r) =
     (Client (handle_url_exception self url ''Internal HTTP error'' r None), None)"
| "handle_transport_exc self url (NonException name) = (Uncaught name, None)"

text \<open>
  \<^verbatim>\<open>open\<close>, in four parts. \<open>Request_init\<close> is \<^verbatim>\<open>requests.Request(url=url, data=data)\<close>:
  the constructor stores its arguments and raises nothing, so it always gives a
  request; its result type still has the ValueError (with its \<^verbatim>\<open>args\<close>) that the first
  \<^verbatim>\<open>try\<close> statement of \<^verbatim>\<open>open\<close> catches. \<open>build_request\<close> writes the headers of
  \<^verbatim>\<open>header_list\<close> into the request in order and sets the method. \<open>dispatch\<close> is the
  call of \<^verbatim>\<open>self.opener.send(self.opener.prepare_request(req), ...)\<close>, with the timeout
  only when one is set. \<open>HTTPClient_open\<close> is the whole method: its result is the
  response or the exception that leaves it, together with the calls of
  \<^verbatim>\<open>log_request\<close> it made, in order. The first \<^verbatim>\<open>try\<close> statement has no
  \<^verbatim>\<open>finally\<close> clause; the second one has, and every way out of it passes through it.
  (\<^verbatim>\<open>reraise_exception\<close> raises the exception it is given.)
\<close>

definition Request_init :: "string \<Rightarrow> string option \<Rightarrow> string list + request" where
  "Request_init url data =
     Inr \<lparr>req_url = url, req_data = data, req_headers = Map.empty, req_method = None\<rparr>"

definition build_request :: "HTTPClient \<Rightarrow> request \<Rightarrow> string \<Rightarrow> request" where
  "build_request self req0 method =
     (let req1 = fold (\<lambda>(key, value) r. r\<lparr>req_headers := (req_headers r)(key \<mapsto> value)\<rparr>)
                   (header_list self) req0
      in req1\<lparr>req_method := Some method\<rparr>)"

definition dispatch :: "env \<Rightarrow> HTTPClient \<Rightarrow> request \<Rightarrow> transport_exc + response" where
  "dispatch e self req =
     (case timeout self of
        Some t \<Rightarrow> send e (opener self) req (Some t)
      | None \<Rightarrow> send e (opener self) req None)"

definition HTTPClient_open ::
  "env \<Rightarrow> HTTPClient \<Rightarrow> string \<Rightarrow> string option \<Rightarrow> string \<Rightarrow>
   (error + response) \<times> log_entry list" where
  "HTTPClient_open e self url data method =
     (case Request_init url data of
        Inl args \<Rightarrow>
          (case subscript args 0 of
             None \<Rightarrow> (Inl IndexError, [])
           | Some a \<Rightarrow>
               (Inl (Client (handle_url_exception self url ''URL not correct'' a None)), []))
      | Inr req0 \<Rightarrow>
          (let req = build_request self req0 method;
               start_time = time_start e;
               (outcome, code, result) =
                 (case dispatch e self req of
                    Inl exc \<Rightarrow>
                      (let (err, code) = handle_transport_exc self url exc
                       in (Inl err, code, None))
                  | Inr result \<Rightarrow>
                      (let code = getattr_code result
                       in if code = 204 then
                            (Inl (Client \<lparr>message = ''HTTP Error '' @ dquote @ ''204 No Content'' @ dquote,
                                          response_code = Some 204, full_msg = None\<rparr>),
                             Some code, Some result)
                          else (Inr result, Some code, Some result)))
           in (outcome,
               [\<lparr>log_url = url, log_code = code, log_result = result,
                 log_duration = time_end e - start_time, log_method = req_method req\<rparr>])))"

datatype ImageSource = ImageSource string

definition open_image ::
  "env \<Rightarrow> HTTPClient \<Rightarrow> string \<Rightarrow> string option \<Rightarrow> (error + ImageSource) \<times> log_entry list" where
  "open_image e self url data =
     (case HTTPClient_open e self url data ''GET'' of
        (Inl err, entries) \<Rightarrow> (Inl err, entries)
      | (Inr resp, entries) \<Rightarrow>
          (case resp_headers resp ''content-type'' of
             Some ct \<Rightarrow>
               if \<not> prefix ''image'' (str_lower ct) then
                 (case response_read resp of
                    Inl err \<Rightarrow> (Inl err, entries)
                  | Inr body \<Rightarrow>
                      (Inl (Client \<lparr>message = ''response is not an image: ('' @ body @ '')'',
                                    response_code = None, full_msg = None\<rparr>), entries))
               else (Inr (ImageSource (resp_content resp)), entries)
           | None \<Rightarrow> (Inr (ImageSource (resp_content resp)), entries)))"

definition HTTPClient_init ::
  "globals \<Rightarrow> URLOpenerCache \<Rightarrow> string option \<Rightarrow> string option \<Rightarrow> string option \<Rightarrow> bool \<Rightarrow>
   string option \<Rightarrow> real option \<Rightarrow> (string \<times> string) list option \<Rightarrow> bool \<Rightarrow> bool \<Rightarrow>
   HTTPClient \<times> URLOpenerCache" where
  "HTTPClient_init g st url username password insecure ssl_ca_certs tmo hdrs hide manage_cookies =
     (let ssl_ca_certs1 =
            (if truthy url \<and> prefix ''https'' (case url of Some u \<Rightarrow> u | None \<Rightarrow> [])
             then (if insecure then None else ssl_ca_certs)
             else ssl_ca_certs);
          (opener, st1) = create_url_opener g st ssl_ca_certs1 url username password
                            insecure manage_cookies
      in (\<lparr>timeout = tmo, opener = opener,
           header_list = (case hdrs of Some h \<Rightarrow> h | None \<Rightarrow> []),
           hide_error_details = hide\<rparr>, st1))"

definition open_url ::
  "globals \<Rightarrow> env \<Rightarrow> URLOpenerCache \<Rightarrow> string \<Rightarrow>
   ((error + response) \<times> log_entry list) \<times> URLOpenerCache" where
  "open_url g e st url =
     (case auth_data_from_url url of
        Inl err \<Rightarrow> ((Inl err, []), st)
      | Inr (url1, (username, password)) \<Rightarrow>
          (let (http_client, st1) =
                 HTTPClient_init g st (Some url1) username password False None None None
                   False False
           in (HTTPClient_open e http_client url1 None ''GET'', st1)))"

section \<open>Notions used to state the properties\<close>

text \<open>
  The generic message, in the words of the specification:
  \<^verbatim>\<open>"<kind> (see logs for URL and reason)."\<close>
\<close>

definition generic_message :: "string \<Rightarrow> string" where
  "generic_message kind = kind @ '' (see logs for URL and reason).''"

text \<open>
  A content type that starts with \<^verbatim>\<open>image\<close>, whatever the case of its letters, in the
  words of the specification: each of the first five characters is the letter of
  \<^verbatim>\<open>image\<close> at its place or the letter of \<^verbatim>\<open>IMAGE\<close>.
\<close>

definition istarts_image :: "string \<Rightarrow> bool" where
  "istarts_image ct =
     (5 \<le> length ct \<and>
      list_all2 (\<lambda>c (l, u). c = l \<or> c = u) (take 5 ct) (zip ''image'' ''IMAGE''))"

text \<open>
  What holds of the cache in every state that calls lead to from the empty one: the
  references in the dictionary are allocated, no two keys share one, and every allocated
  reference has its session on the heap.
\<close>

definition cache_inv :: "URLOpenerCache \<Rightarrow> bool" where
  "cache_inv st =
     ((\<forall>k a. opener_dict st k = Some a \<longrightarrow> a < next_ref st) \<and>
      inj_on (opener_dict st) (dom (opener_dict st)) \<and>
      (\<forall>a. a < next_ref st \<longrightarrow> heap st a \<noteq> None))"

section \<open>Concrete clients and environments\<close>

text \<open>
  Two clients, one of them hiding error details, and environments in which the URL
  cannot be prepared, the connection is refused, the response has status 204, and the
  response has no \<^verbatim>\<open>content-type\<close> header, one that is not an image, or one that is.
\<close>

definition plain_client :: HTTPClient where
  "plain_client =
     \<lparr>timeout = None, opener = 0, header_list = [], hide_error_details = False\<rparr>"

definition hiding_client :: HTTPClient where
  "hiding_client =
     \<lparr>timeout = Some 5, opener = 0, header_list = [(''Accept'', ''image/png'')],
      hide_error_details = True\<rparr>"

definition html_response :: "(string \<rightharpoonup> string) \<Rightarrow> int \<Rightarrow> response" where
  "html_response hdrs c =
     \<lparr>status_code = c, resp_headers = hdrs, resp_content = ''<html/>''\<rparr>"


definition env_refused :: env where
  "env_refused =
     \<lparr>send = (\<lambda>r req t. Inl (ConnectionError ''ConnectionError(Connection refused)'')),
      time_start = 1, time_end = 3\<rparr>"

definition env_no_content :: env where
  "env_no_content =
     \<lparr>send = (\<lambda>r req t. Inr (html_response Map.empty 204)),
      time_start = 1, time_end = 3\<rparr>"

definition env_headerless :: env where
  "env_headerless =
     \<lparr>send = (\<lambda>r req t. Inr (html_response Map.empty 200)),
      time_start = 1, time_end = 3\<rparr>"

definition env_html :: env where
  "env_html =
     \<lparr>send = (\<lambda>r req t. Inr (html_response [''content-type'' \<mapsto> ''Text/HTML''] 200)),
      time_start = 1, time_end = 3\<rparr>"

definition env_png :: env where
  "env_png =
     \<lparr>send = (\<lambda>r req t. Inr (html_response [''content-type'' \<mapsto> ''Image/PNG''] 200)),
      time_start = 1, time_end = 3\<rparr>"

definition requests_globals :: globals where
  "requests_globals =
     \<lparr>version = ''1.16.0'',
      session_defaults =
        \<lparr>cert = None, verify = True, auth = None,
         headers = [''User-Agent'' \<mapsto> ''python-requests/2.31.0'', ''Accept'' \<mapsto> ''*/*'']\<rparr>\<rparr>"

text \<open>
  Calls of the cache from its empty state: a first call for the key
  \<open>(None, False, False)\<close>, a call for another key in between, then a call for the first
  key with other credentials and a call for a third key.
\<close>

definition first_call :: "nat \<times> URLOpenerCache" where
  "first_call =
     create_url_opener requests_globals (calls requests_globals URLOpenerCache_init [])
       None (Some ''http://localhost/'') (Some ''bar'') (Some ''baz'') False False"

definition calls_between :: "opener_args list" where
  "calls_between = [(Some ''/etc/ca.pem'', Some ''https://example.org/'', None, None, False, False)]"

definition same_key_call :: "nat \<times> URLOpenerCache" where
  "same_key_call =
     create_url_opener requests_globals (calls requests_globals (snd first_call) calls_between)
       None (Some ''http://example.org/'') (Some ''eve'') (Some ''pw'') False False"

definition other_key_call :: "nat \<times> URLOpenerCache" where
  "other_key_call =
     create_url_opener requests_globals (calls requests_globals (snd first_call) calls_between)
       None (Some ''http://example.org/'') None None True False"

section \<open>Properties of the string operations\<close>

text \<open>
  \<open>str_in\<close> is containment as a contiguous sublist, and the splits cut at the first
  (for \<open>rsplit1\<close>: the last) occurrence of the separator.
\<close>

lemma str_find_None_iff: "str_find sub s = None \<longleftrightarrow> \<not> sublist sub s"
  by (induction s) (simp_all add: sublist_Cons_right)

lemma str_in_sublist: "str_in sub s \<longleftrightarrow> sublist sub s"
  by (simp add: str_in_def str_find_None_iff)

lemma str_find_first:
  assumes "sub \<noteq> []" and "\<not> sublist sub (a @ butlast sub)"
  shows "str_find sub (a @ sub @ b) = Some (length a)"
  using assms
proof (induction a)
  case Nil
  then show ?case by (cases sub) auto
next
  case (Cons x a)
  have np: "\<not> prefix sub (x # a @ butlast sub)"
    using Cons.prems(2) by (auto simp: sublist_Cons_right)
  have ns: "\<not> sublist sub (a @ butlast sub)"
    using Cons.prems(2) by (auto simp: sublist_Cons_right)
  have "\<not> prefix sub (x # a @ sub @ b)"
  proof
    assume p: "prefix sub (x # a @ sub @ b)"
    have e: "x # a @ sub @ b = (x # a @ butlast sub) @ (last sub # b)"
      using Cons.prems(1) by simp
    have "length sub \<le> length (x # a @ butlast sub)" by simp
    with p e have "prefix sub (x # a @ butlast sub)"
      by (metis prefix_length_prefix prefixI)
    with np show False by simp
  qed
  then show ?case using Cons.IH[OF Cons.prems(1) ns] by simp
qed

lemma str_find_char:
  "str_find [c] s = (if c \<in> set s then Some (length (takeWhile (\<lambda>x. x \<noteq> c) s)) else None)"
  by (induction s) auto

lemma str_rfind_char_last:
  assumes "c \<notin> set b"
  shows "str_rfind [c] (a @ c # b) = Some (length a)"
proof -
  have "takeWhile (\<lambda>x. x \<noteq> c) (rev b @ c # rev a) = rev b"
    using assms by (simp add: takeWhile_append)  
  then show ?thesis
    by (simp add: str_rfind_def str_find_char)
qed

lemma str_rfind_char_None: "c \<notin> set s \<Longrightarrow> str_rfind [c] s = None"
  by (simp add: str_rfind_def str_find_char)

lemma split1_first:
  "sub \<noteq> [] \<Longrightarrow> \<not> sublist sub (a @ butlast sub) \<Longrightarrow> split1 sub (a @ sub @ b) = [a, b]"
  by (simp add: split1_def str_find_first)

lemma str_find_char_first:
  "c \<notin> set a \<Longrightarrow> str_find [c] (a @ c # b) = Some (length a)"
  by (simp add: str_find_char takeWhile_append)

lemma split1_char_first: "c \<notin> set a \<Longrightarrow> split1 [c] (a @ c # b) = [a, b]"
  by (simp add: split1_def str_find_char_first)

lemma rsplit1_char_last: "c \<notin> set b \<Longrightarrow> rsplit1 [c] (a @ c # b) = [a, b]"
  by (simp add: rsplit1_def str_rfind_char_last)

lemma str_in_char: "str_in [c] s \<longleftrightarrow> c \<in> set s"
  by (simp add: str_in_def str_find_char)

lemma split1_char_takeWhile:
  "c \<in> set s \<Longrightarrow>
   split1 [c] s = [takeWhile (\<lambda>x. x \<noteq> c) s, tl (dropWhile (\<lambda>x. x \<noteq> c) s)]"
  by (simp add: split1_def str_find_char dropWhile_eq_drop drop_Suc tl_drop
      takeWhile_eq_take [symmetric])

lemma takeWhile_absent: "c \<notin> set s \<Longrightarrow> takeWhile (\<lambda>x. x \<noteq> c) s = s"
  by (induction s) auto

lemma str_in_scheme_sep: "str_in ''://'' (schema @ ''://'' @ rest)"
  by (simp add: str_in_sublist sublist_append)


section \<open>Properties of \<^verbatim>\<open>auth_data_from_url\<close>\<close>

text \<open>
  \<^verbatim>\<open>auth_data_from_url\<close> raises on no input: each unpacking is of a split whose
  separator the function has just found in the string.
\<close>

lemma split1_two: "str_in sep s \<Longrightarrow> \<exists>a b. split1 sep s = [a, b]"
  by (auto simp add: str_in_def split1_def)

lemma rsplit1_two: "str_in [c] s \<Longrightarrow> \<exists>a b. rsplit1 [c] s = [a, b]"
  by (auto simp add: str_in_char rsplit1_def str_rfind_def str_find_char)

lemma unpack2_two: "xs = [a, b] \<Longrightarrow> unpack2 xs = Inr (a, b)"
  by simp

lemma auth_data_from_url_returns: "\<exists>r. auth_data_from_url url = Inr r"
proof (cases "url = [] \<or> \<not> str_in ''://'' url")
  case True
  then show ?thesis by (auto simp add: auth_data_from_url_def)
next
  case False
  then obtain schema url1 where s: "split1 ''://'' url = [schema, url1]"
    using split1_two by blast
  obtain host request where
    p: "(if str_in ''/'' url1 then unpack2 (split1 ''/'' url1) else Inr (url1, [])) =
          Inr (host, request)"
    using split1_two [of "''/''" url1] by (cases "str_in ''/'' url1") auto
  obtain username password host2 where
    c: "(if str_in ''@'' host then
           (case unpack2 (rsplit1 ''@'' host) of
              Inl e \<Rightarrow> Inl e
            | Inr (auth_data, host1) \<Rightarrow>
               (if str_in '':'' auth_data then
                  (case unpack2 (split1 '':'' auth_data) of
                     Inl e \<Rightarrow> Inl e
                   | Inr (username, password) \<Rightarrow>
                       Inr (Some username, Some password, host1))
                else Inr (Some auth_data, None, host1)))
         else Inr (None, None, host)) = Inr (username, password, host2)"
  proof (cases "str_in ''@'' host")
    case no: False
    then show ?thesis using that by simp
  next
    case True
    then obtain auth_data host1 where r: "rsplit1 ''@'' host = [auth_data, host1]"
      using rsplit1_two by blast
    show ?thesis
    proof (cases "str_in '':'' auth_data")
      case no: False
      then show ?thesis using that True r by simp
    next
      case yes: True
      then obtain u pw where "split1 '':'' auth_data = [u, pw]"
        using split1_two by blast
      then show ?thesis using that True r yes by simp
    qed
  qed
  show ?thesis
    using False
    by (simp only: auth_data_from_url_def if_False s unpack2.simps sum.case prod.case p c)
      blast
qed

text \<open>
  C6. For a URL \<open>schema://userinfo@host\<close> followed by nothing or by \<open>/request\<close>, where
  \<open>://\<close> first occurs right after \<open>schema\<close>, the authority \<open>userinfo@host\<close> holds no
  \<open>/\<close> and \<open>host\<close> holds no \<open>@\<close> (so the \<open>@\<close> before \<open>host\<close> is the last one of the
  authority): \<^verbatim>\<open>auth_data_from_url\<close> returns the URL without the userinfo, the
  username is the userinfo up to its first \<open>:\<close> and the password is everything after
  that first \<open>:\<close>, with any further \<open>:\<close> and \<open>@\<close> kept as they are (no password when
  the userinfo holds no \<open>:\<close>).
\<close>

theorem split_last_at_first_colon:
  assumes first: "\<not> sublist ''://'' (schema @ '':/'')"
    and ui: "CHR ''/'' \<notin> set userinfo"
    and h1: "CHR ''/'' \<notin> set host"
    and h2: "CHR ''@'' \<notin> set host"
    and tl: "tail = [] \<or> hd tail = CHR ''/''"
  shows "auth_data_from_url (schema @ ''://'' @ userinfo @ ''@'' @ host @ tail) =
     Inr (schema @ ''://'' @ host @ ''/'' @ tl tail,
          (Some (takeWhile (\<lambda>c. c \<noteq> CHR '':'') userinfo),
           if CHR '':'' \<in> set userinfo
           then Some (tl (dropWhile (\<lambda>c. c \<noteq> CHR '':'') userinfo)) else None))"
proof -
  let ?url1 = "userinfo @ ''@'' @ host @ tail"
  let ?auth = "userinfo @ ''@'' @ host"
  have s1: "split1 ''://'' (schema @ ''://'' @ ?url1) = [schema, ?url1]"
    using first by (intro split1_first) simp_all
  have in1: "str_in ''://'' (schema @ ''://'' @ ?url1)"
    by (rule str_in_scheme_sep)
  have path: "(if str_in ''/'' ?url1 then unpack2 (split1 ''/'' ?url1) else Inr (?url1, []))
      = Inr (?auth, tl tail)"
  proof (cases tail)
    case Nil
    then show ?thesis using ui h1 by (simp add: str_in_char)
  next
    case (Cons c r)
    with tl have c: "c = CHR ''/''" by simp
    have "split1 ''/'' (?auth @ CHR ''/'' # r) = [?auth, r]"
      using ui h1 by (intro split1_char_first) simp
    then show ?thesis using Cons c by (simp add: str_in_char)
  qed
  have at: "str_in ''@'' ?auth" by (simp add: str_in_char)
  have rs: "rsplit1 ''@'' ?auth = [userinfo, host]"
    using rsplit1_char_last[OF h2, of userinfo] by simp
  have colon: "(if str_in '':'' userinfo then
          (case unpack2 (split1 '':'' userinfo) of
             Inl e \<Rightarrow> Inl e
           | Inr (username, password) \<Rightarrow> Inr (Some username, Some password, host))
        else Inr (Some userinfo, None, host)) =
      Inr (Some (takeWhile (\<lambda>c. c \<noteq> CHR '':'') userinfo),
           (if CHR '':'' \<in> set userinfo
            then Some (tl (dropWhile (\<lambda>c. c \<noteq> CHR '':'') userinfo)) else None), host)"
    by (simp add: str_in_char split1_char_takeWhile takeWhile_absent)
  have guard: "(schema @ ''://'' @ ?url1 = [] \<or> \<not> str_in ''://'' (schema @ ''://'' @ ?url1)) = False"
    using in1 by simp
  show ?thesis
    by (simp only: auth_data_from_url_def guard if_False s1 unpack2.simps sum.case
        prod.case path at if_True rs colon)
qed


theorem split_last_at_first_colon_witness:
  "\<not> sublist ''://'' (''http'' @ '':/'') \<and>
   CHR ''/'' \<notin> set ''bar:b:az@'' \<and> CHR ''/'' \<notin> set ''localhost'' \<and>
   CHR ''@'' \<notin> set ''localhost'' \<and> (''/bar'' = [] \<or> hd ''/bar'' = CHR ''/'') \<and>
   auth_data_from_url ''http://bar:b:az@@localhost/bar'' =
     Inr (''http://localhost/bar'', (Some ''bar'', Some ''b:az@''))"
proof -
  have h: "\<not> sublist ''://'' (''http'' @ '':/'')"
    by (simp add: str_find_None_iff [symmetric])
  have "auth_data_from_url (''http'' @ ''://'' @ ''bar:b:az@'' @ ''@'' @ ''localhost'' @ ''/bar'') =
     Inr (''http'' @ ''://'' @ ''localhost'' @ ''/'' @ tl ''/bar'',
          (Some (takeWhile (\<lambda>c. c \<noteq> CHR '':'') ''bar:b:az@''),
           if CHR '':'' \<in> set ''bar:b:az@''
           then Some (tl (dropWhile (\<lambda>c. c \<noteq> CHR '':'') ''bar:b:az@'')) else None))"
    by (rule split_last_at_first_colon [OF h]) simp_all
  then show ?thesis using h by simp
qed

text \<open>
  C7. For a URL \<open>schema://host/path\<close>, where \<open>://\<close> first occurs right after \<open>schema\<close>
  and the authority \<open>host\<close> holds neither \<open>/\<close> nor \<open>@\<close>, \<^verbatim>\<open>auth_data_from_url\<close>
  returns the URL unchanged with no credentials, whatever the path holds.
\<close>

theorem split_no_credentials:
  assumes first: "\<not> sublist ''://'' (schema @ '':/'')"
    and h1: "CHR ''/'' \<notin> set host"
    and h2: "CHR ''@'' \<notin> set host"
  shows "auth_data_from_url (schema @ ''://'' @ host @ ''/'' @ path) =
     Inr (schema @ ''://'' @ host @ ''/'' @ path, (None, None))"
proof -
  let ?url1 = "host @ ''/'' @ path"
  have s1: "split1 ''://'' (schema @ ''://'' @ ?url1) = [schema, ?url1]"
    using first by (intro split1_first) simp_all
  have in1: "str_in ''://'' (schema @ ''://'' @ ?url1)"
    by (rule str_in_scheme_sep)
  have sp: "split1 ''/'' ?url1 = [host, path]"
    using split1_char_first[OF h1, of path] by simp
  show ?thesis
    unfolding auth_data_from_url_def
    using in1 s1 sp h2
    by (simp add: str_in_char)
qed


theorem split_no_credentials_witness:
  "\<not> sublist ''://'' (''http'' @ '':/'') \<and>
   CHR ''/'' \<notin> set ''localhost'' \<and> CHR ''@'' \<notin> set ''localhost'' \<and>
   auth_data_from_url ''http://localhost/bar@2x'' =
     Inr (''http://localhost/bar@2x'', (None, None))"
proof -
  have h: "\<not> sublist ''://'' (''http'' @ '':/'')"
    by (simp add: str_find_None_iff [symmetric])
  have "auth_data_from_url (''http'' @ ''://'' @ ''localhost'' @ ''/'' @ ''bar@2x'') =
     Inr (''http'' @ ''://'' @ ''localhost'' @ ''/'' @ ''bar@2x'', (None, None))"
    by (rule split_no_credentials [OF h]) simp_all
  then show ?thesis using h by simp
qed

text \<open>
  C8. For an input that does not contain \<open>://\<close>, the empty string among them,
  \<^verbatim>\<open>auth_data_from_url\<close> returns (it does not raise) the input unchanged, paired with
  the credentials \<open>(None, None)\<close>.
\<close>

theorem split_without_scheme_separator:
  assumes "\<not> sublist ''://'' url"
  shows "auth_data_from_url url = Inr (url, (None, None))"
  using assms by (simp add: auth_data_from_url_def str_in_sublist)

theorem split_without_scheme_separator_witness:
  "\<not> sublist ''://'' ''invalid_url'' \<and> \<not> sublist ''://'' [] \<and>
   auth_data_from_url ''invalid_url'' = Inr (''invalid_url'', (None, None)) \<and>
   auth_data_from_url [] = Inr ([], (None, None))"
proof -
  have h1: "\<not> sublist ''://'' ''invalid_url''"
    by (simp add: str_find_None_iff [symmetric])
  have h2: "\<not> sublist ''://'' []"
    by simp
  show ?thesis
    using h1 h2 split_without_scheme_separator [OF h1] split_without_scheme_separator [OF h2]
    by simp
qed

section \<open>Properties of \<^verbatim>\<open>HTTPClient.open\<close>\<close>

text \<open>
  The calls of \<^verbatim>\<open>log_request\<close> that \<^verbatim>\<open>open\<close> makes; the value that \<^verbatim>\<open>open\<close> reads
  as the status of a response; what \<^verbatim>\<open>open\<close> does with a response and with the
  exceptions of \<^verbatim>\<open>requests\<close> that are not ValueError.
\<close>

lemma dispatch_send: "dispatch e self req = send e (opener self) req (timeout self)"
  by (simp add: dispatch_def split: option.split)


lemma getattr_code_200: "getattr_code result = 200"
  by (simp add: getattr_code_def response_attr_def)

lemma open_returns_every_response:
  assumes "dispatch e self (build_request self
             \<lparr>req_url = url, req_data = data, req_headers = Map.empty, req_method = None\<rparr>
             method) = Inr result"
  shows "fst (HTTPClient_open e self url data method) = Inr result"
  using assms
  by (simp add: HTTPClient_open_def Request_init_def Let_def getattr_code_200)

lemma open_requests_failure_is_internal:
  assumes "dispatch e self (build_request self
             \<lparr>req_url = url, req_data = data, req_headers = Map.empty, req_method = None\<rparr>
             method) = Inl exc"
    and "exc = ConnectionError r \<or> exc = Timeout r \<or> exc = SSLError r"
  shows "fst (HTTPClient_open e self url data method) =
     Inl (Client (handle_url_exception self url ''Internal HTTP error'' r None))"
  using assms
  by (auto simp add: HTTPClient_open_def Request_init_def Let_def)



text \<open>
  C2 says what the test \<^verbatim>\<open>code == 204\<close> of \<^verbatim>\<open>open\<close> is written for, and the code
  misses it: \<^verbatim>\<open>open\<close> reads the status as \<^verbatim>\<open>getattr(result, 'code', 200)\<close>, a
  response of \<^verbatim>\<open>requests\<close> keeps it in \<^verbatim>\<open>status_code\<close>, and a response with
  status 204 is returned as a success and logged with the code 200.
\<close>

theorem open_returns_status_204:
  "status_code (html_response Map.empty 204) = 204 \<and>
   HTTPClient_open env_no_content plain_client ''http://localhost/'' None ''GET'' =
     (Inr (html_response Map.empty 204),
      [\<lparr>log_url = ''http://localhost/'', log_code = Some 200,
        log_result = Some (html_response Map.empty 204), log_duration = 2,
        log_method = Some ''GET''\<rparr>])"
  by (simp add: HTTPClient_open_def Request_init_def env_no_content_def plain_client_def
      dispatch_def getattr_code_200 build_request_def html_response_def)

text \<open>
  C3 says what the handler of URLError in \<^verbatim>\<open>open\<close> is written for, and the code
  misses it: a refused connection reaches \<^verbatim>\<open>open\<close> as the ConnectionError of
  \<^verbatim>\<open>requests\<close>, which is no URLError, and the handler of Exception turns it into the
  error "Internal HTTP error" instead of "No response from URL".
\<close>

theorem open_connection_refused_is_internal_error:
  "HTTPClient_open env_refused plain_client ''http://localhost/'' None ''GET'' =
     (Inl (Client \<lparr>message = ''Internal HTTP error '' @ dquote @ ''http://localhost/'' @ dquote @
                       '': ConnectionError(Connection refused)'',
                    response_code = None, full_msg = None\<rparr>),
      [\<lparr>log_url = ''http://localhost/'', log_code = None, log_result = None,
        log_duration = 2, log_method = Some ''GET''\<rparr>]) \<and>
   \<not> prefix ''No response from URL''
       (''Internal HTTP error '' @ dquote @ ''http://localhost/'' @ dquote @
        '': ConnectionError(Connection refused)'')"
  by (simp add: HTTPClient_open_def Request_init_def env_refused_def plain_client_def
      dispatch_def build_request_def handle_url_exception_def)

section \<open>Properties of \<^verbatim>\<open>handle_url_exception\<close>\<close>

text \<open>
  C4, as the claim states it, fails for a URL that occurs in the generic text itself: the
  message for the URL \<^verbatim>\<open>URL\<close> contains it.
\<close>

theorem hidden_details_message_may_contain_url:
  "hide_error_details hiding_client \<and>
   sublist ''URL''
     (message (handle_url_exception hiding_client ''URL'' ''URL not correct''
                 ''Invalid URL: No scheme supplied'' None))"
proof -
  have "message (handle_url_exception hiding_client ''URL'' ''URL not correct''
                 ''Invalid URL: No scheme supplied'' None) =
        ''URL not correct (see logs for URL and reason).''"
    by (simp add: handle_url_exception_def hiding_client_def)
  moreover have "sublist ''URL'' ''URL not correct (see logs for URL and reason).''"
    using str_find_None_iff [of "''URL''" "''URL not correct (see logs for URL and reason).''"]
    by simp
  ultimately show ?thesis
    by (simp add: hiding_client_def)
qed

text \<open>
  C4, amended. While \<^verbatim>\<open>hide_error_details\<close> is true, the message of the error is the
  generic form \<^verbatim>\<open>"<kind> (see logs for URL and reason)."\<close>, the same for every URL and
  reason, and the full message of kind, URL and reason is kept in \<^verbatim>\<open>full_msg\<close>; the
  message contains no URL and no reason that has a character outside the generic form.
\<close>

theorem hidden_details_message:
  assumes "hide_error_details self"
  shows "message (handle_url_exception self url kind reason code) = generic_message kind \<and>
     message (handle_url_exception self url kind reason code) =
       message (handle_url_exception self url' kind reason' code') \<and>
     full_msg (handle_url_exception self url kind reason code) =
       Some (kind @ '' '' @ dquote @ url @ dquote @ '': '' @ reason) \<and>
     response_code (handle_url_exception self url kind reason code) = code \<and>
     (\<not> set url \<subseteq> set (generic_message kind) \<longrightarrow>
        \<not> sublist url (message (handle_url_exception self url kind reason code))) \<and>
     (\<not> set reason \<subseteq> set (generic_message kind) \<longrightarrow>
        \<not> sublist reason (message (handle_url_exception self url kind reason code)))"
proof -
  have msg: "message (handle_url_exception self url kind reason code) = generic_message kind"
    using assms by (simp add: handle_url_exception_def Let_def generic_message_def)
  have msg': "message (handle_url_exception self url' kind reason' code') = generic_message kind"
    using assms by (simp add: handle_url_exception_def Let_def generic_message_def)
  have full: "full_msg (handle_url_exception self url kind reason code) =
       Some (kind @ '' '' @ dquote @ url @ dquote @ '': '' @ reason)"
    using assms by (simp add: handle_url_exception_def Let_def)
  have code: "response_code (handle_url_exception self url kind reason code) = code"
    by (simp add: handle_url_exception_def Let_def)
  have sub: "\<not> set x \<subseteq> set (generic_message kind) \<longrightarrow>
        \<not> sublist x (generic_message kind)" for x
    using set_mono_sublist by blast
  show ?thesis
    unfolding msg msg' using full code sub by simp
qed

theorem hidden_details_message_witness:
  "hide_error_details hiding_client \<and>
   \<not> set ''http://localhost/'' \<subseteq> set (generic_message ''No response from URL'') \<and>
   \<not> set ''[Errno 111] Connection refused''
       \<subseteq> set (generic_message ''No response from URL'') \<and>
   handle_url_exception hiding_client ''http://localhost/'' ''No response from URL''
     ''[Errno 111] Connection refused'' None =
     \<lparr>message = ''No response from URL (see logs for URL and reason).'',
      response_code = None,
      full_msg = Some (''No response from URL '' @ dquote @ ''http://localhost/'' @ dquote @
                       '': [Errno 111] Connection refused'')\<rparr> \<and>
   \<not> sublist ''http://localhost/''
     (message (handle_url_exception hiding_client ''http://localhost/'' ''No response from URL''
        ''[Errno 111] Connection refused'' None)) \<and>
   \<not> sublist ''[Errno 111] Connection refused''
     (message (handle_url_exception hiding_client ''http://localhost/'' ''No response from URL''
        ''[Errno 111] Connection refused'' None))"
proof -
  have h: "hide_error_details hiding_client"
    by (simp add: hiding_client_def)
  have u: "\<not> set ''http://localhost/'' \<subseteq> set (generic_message ''No response from URL'')"
    by (simp add: generic_message_def)
  have r: "\<not> set ''[Errno 111] Connection refused''
       \<subseteq> set (generic_message ''No response from URL'')"
    by (simp add: generic_message_def)
  have v: "handle_url_exception hiding_client ''http://localhost/'' ''No response from URL''
     ''[Errno 111] Connection refused'' None =
     \<lparr>message = ''No response from URL (see logs for URL and reason).'',
      response_code = None,
      full_msg = Some (''No response from URL '' @ dquote @ ''http://localhost/'' @ dquote @
                       '': [Errno 111] Connection refused'')\<rparr>"
    by (simp add: handle_url_exception_def hiding_client_def)
  show ?thesis
    using h u r v
      hidden_details_message [OF h, of "''http://localhost/''" "''No response from URL''"
        "''[Errno 111] Connection refused''" None]
    by blast
qed

section \<open>Properties of \<^verbatim>\<open>HTTPClient.open_image\<close>\<close>

text \<open>
  \<open>lower_char\<close> maps exactly a letter of \<^verbatim>\<open>image\<close> and its capital to that letter, so
  the test of \<^verbatim>\<open>open_image\<close> is the case-insensitive one.
\<close>

lemma of_char_less_256: "(of_char c :: nat) < 256"
proof -
  have "(of_char c :: nat) mod 256 < 256" by simp
  then show ?thesis by (simp only: of_char_mod_256)
qed

lemma char_eq_iff_nat: "c = d \<longleftrightarrow> (of_char c :: nat) = of_char d"
  by simp

lemma lower_char_eq:
  fixes l :: nat
  assumes "97 \<le> l" and "l \<le> 122"
  shows "lower_char c = char_of l \<longleftrightarrow> (of_char c :: nat) = l \<or> (of_char c :: nat) = l - 32"
proof -
  define n where "n = (of_char c :: nat)"
  have lt: "n < 256" unfolding n_def by (rule of_char_less_256)
  have l: "l mod 256 = l" using assms by simp
  show ?thesis
  proof (cases "(65 \<le> n \<and> n \<le> 90) \<or> (192 \<le> n \<and> n \<le> 222 \<and> n \<noteq> 215)")
    case True
    then have lc: "lower_char c = char_of (n + 32)"
      by (auto simp add: lower_char_def Let_def n_def)
    have "(n + 32) mod 256 = n + 32" using True by auto
    then have "char_of (n + 32) = (char_of l :: char) \<longleftrightarrow> n + 32 = l"
      using l by (simp add: char_eq_iff_nat)
    then show ?thesis using lc True assms unfolding n_def [symmetric] by auto
  next
    case False
    then have lc: "lower_char c = c"
      by (auto simp add: lower_char_def Let_def n_def)
    have "c = char_of l \<longleftrightarrow> n = l"
      using l by (simp add: char_eq_iff_nat n_def)
    then show ?thesis using lc False assms unfolding n_def [symmetric] by auto
  qed
qed


lemma lower_char_letters:
  "lower_char c = CHR ''i'' \<longleftrightarrow> c = CHR ''i'' \<or> c = CHR ''I''"
  "lower_char c = CHR ''m'' \<longleftrightarrow> c = CHR ''m'' \<or> c = CHR ''M''"
  "lower_char c = CHR ''a'' \<longleftrightarrow> c = CHR ''a'' \<or> c = CHR ''A''"
  "lower_char c = CHR ''g'' \<longleftrightarrow> c = CHR ''g'' \<or> c = CHR ''G''"
  "lower_char c = CHR ''e'' \<longleftrightarrow> c = CHR ''e'' \<or> c = CHR ''E''"
proof -
  have codes: "char_of (105::nat) = CHR ''i''" "char_of (109::nat) = CHR ''m''"
    "char_of (97::nat) = CHR ''a''" "char_of (103::nat) = CHR ''g''"
    "char_of (101::nat) = CHR ''e''"
    by (simp_all add: char_eq_iff_nat)
  show "lower_char c = CHR ''i'' \<longleftrightarrow> c = CHR ''i'' \<or> c = CHR ''I''"
    using lower_char_eq [of 105 c] by (simp add: codes char_eq_iff_nat [of c])
  show "lower_char c = CHR ''m'' \<longleftrightarrow> c = CHR ''m'' \<or> c = CHR ''M''"
    using lower_char_eq [of 109 c] by (simp add: codes char_eq_iff_nat [of c])
  show "lower_char c = CHR ''a'' \<longleftrightarrow> c = CHR ''a'' \<or> c = CHR ''A''"
    using lower_char_eq [of 97 c] by (simp add: codes char_eq_iff_nat [of c])
  show "lower_char c = CHR ''g'' \<longleftrightarrow> c = CHR ''g'' \<or> c = CHR ''G''"
    using lower_char_eq [of 103 c] by (simp add: codes char_eq_iff_nat [of c])
  show "lower_char c = CHR ''e'' \<longleftrightarrow> c = CHR ''e'' \<or> c = CHR ''E''"
    using lower_char_eq [of 101 c] by (simp add: codes char_eq_iff_nat [of c])
qed

lemma five_elements:
  "5 \<le> length xs \<Longrightarrow> \<exists>a b c d e r. xs = a # b # c # d # e # r"
  by (auto simp add: numeral_eq_Suc Suc_le_length_iff)

lemma prefix_image_lower: "prefix ''image'' (str_lower ct) \<longleftrightarrow> istarts_image ct"
proof (cases "5 \<le> length ct")
  case False
  then have "length (str_lower ct) < length ''image''"
    by (simp add: str_lower_def)
  then have "\<not> prefix ''image'' (str_lower ct)"
    using prefix_length_le by fastforce
  then show ?thesis using False by (simp add: istarts_image_def)
next
  case True
  then obtain c1 c2 c3 c4 c5 rest where ct: "ct = c1 # c2 # c3 # c4 # c5 # rest"
    using five_elements by blast
  show ?thesis
    unfolding ct
    by (simp add: istarts_image_def str_lower_def lower_char_letters
        eq_commute [of "CHR ''i''"] eq_commute [of "CHR ''m''"] eq_commute [of "CHR ''a''"]
        eq_commute [of "CHR ''g''"] eq_commute [of "CHR ''e''"])
qed

text \<open>
  C5, as the claim states it, fails for a response without a \<^verbatim>\<open>content-type\<close> header:
  \<^verbatim>\<open>open_image\<close> tests the header only when it is there, and returns the image payload.
\<close>

lemma open_headerless:
  "HTTPClient_open env_headerless plain_client ''http://localhost/'' None ''GET'' =
     (Inr (html_response Map.empty 200),
      [\<lparr>log_url = ''http://localhost/'', log_code = Some 200,
        log_result = Some (html_response Map.empty 200), log_duration = 2,
        log_method = Some ''GET''\<rparr>])"
  by (simp add: HTTPClient_open_def Request_init_def env_headerless_def plain_client_def
      dispatch_def getattr_code_200 build_request_def)

theorem open_image_without_content_type:
  "resp_headers (html_response Map.empty 200) ''content-type'' = None \<and>
   open_image env_headerless plain_client ''http://localhost/'' None =
     (Inr (ImageSource ''<html/>''),
      [\<lparr>log_url = ''http://localhost/'', log_code = Some 200,
        log_result = Some (html_response Map.empty 200), log_duration = 2,
        log_method = Some ''GET''\<rparr>])"
  by (simp add: open_image_def open_headerless) (simp add: html_response_def)

text \<open>
  C5, amended. For a response that \<^verbatim>\<open>open\<close> returns, \<^verbatim>\<open>open_image\<close> returns the image
  payload of the content when the \<^verbatim>\<open>content-type\<close> header is missing or starts with
  \<^verbatim>\<open>image\<close>, whatever the case of the letters; when the header is there and does not
  start with \<^verbatim>\<open>image\<close>, it returns no payload: it raises.
\<close>

theorem open_image_content_type:
  assumes "HTTPClient_open e self url data ''GET'' = (Inr resp, entries)"
  shows "((case resp_headers resp ''content-type'' of
            Some ct \<Rightarrow> istarts_image ct
          | None \<Rightarrow> True) \<longrightarrow>
          open_image e self url data = (Inr (ImageSource (resp_content resp)), entries)) \<and>
         ((case resp_headers resp ''content-type'' of
            Some ct \<Rightarrow> \<not> istarts_image ct
          | None \<Rightarrow> False) \<longrightarrow>
          isl (fst (open_image e self url data)) \<and>
          snd (open_image e self url data) = entries)"
  using assms
  by (simp add: open_image_def prefix_image_lower response_read_def split: option.split)

lemma open_html:
  "HTTPClient_open env_html plain_client ''http://localhost/'' None ''GET'' =
     (Inr (html_response [''content-type'' \<mapsto> ''Text/HTML''] 200),
      [\<lparr>log_url = ''http://localhost/'', log_code = Some 200,
        log_result = Some (html_response [''content-type'' \<mapsto> ''Text/HTML''] 200),
        log_duration = 2, log_method = Some ''GET''\<rparr>])"
  by (simp add: HTTPClient_open_def Request_init_def env_html_def plain_client_def
      dispatch_def getattr_code_200 build_request_def)

lemma open_png:
  "HTTPClient_open env_png plain_client ''http://localhost/'' None ''GET'' =
     (Inr (html_response [''content-type'' \<mapsto> ''Image/PNG''] 200),
      [\<lparr>log_url = ''http://localhost/'', log_code = Some 200,
        log_result = Some (html_response [''content-type'' \<mapsto> ''Image/PNG''] 200),
        log_duration = 2, log_method = Some ''GET''\<rparr>])"
  by (simp add: HTTPClient_open_def Request_init_def env_png_def plain_client_def
      dispatch_def getattr_code_200 build_request_def)

theorem open_image_content_type_witness:
  "\<not> istarts_image ''Text/HTML'' \<and> istarts_image ''Image/PNG'' \<and>
   isl (fst (open_image env_html plain_client ''http://localhost/'' None)) \<and>
   fst (open_image env_png plain_client ''http://localhost/'' None) =
     Inr (ImageSource ''<html/>'') \<and>
   fst (open_image env_headerless plain_client ''http://localhost/'' None) =
     Inr (ImageSource ''<html/>'')"
proof -
  have a: "\<not> istarts_image ''Text/HTML''" and b: "istarts_image ''Image/PNG''"
    by (simp_all add: istarts_image_def)
  show ?thesis
    using a b open_image_content_type [OF open_html] open_image_content_type [OF open_png]
      open_image_content_type [OF open_headerless]
    by (simp add: html_response_def)
qed

section \<open>Properties of the session cache\<close>

text \<open>
  A call of the cache, by whether its key is in the dictionary; what a call keeps; and
  the invariant, which holds at the start and which every call keeps.
\<close>

lemma cache_inv_init: "cache_inv URLOpenerCache_init"
  by (simp add: cache_inv_def URLOpenerCache_init_def)

lemma create_cases:
  "create_url_opener g st ca url u p ins mc =
     (case opener_dict st (ca, ins, mc) of
        None \<Rightarrow>
          (next_ref st,
           \<lparr>opener_dict = (opener_dict st)((ca, ins, mc) \<mapsto> next_ref st),
            heap = (heap st)(next_ref st \<mapsto> session_setup g ca u p ins mc),
            next_ref = Suc (next_ref st)\<rparr>)
      | Some a \<Rightarrow>
          (a, \<lparr>opener_dict = opener_dict st,
               heap = (heap st)(next_ref st \<mapsto> session_defaults g),
               next_ref = Suc (next_ref st)\<rparr>))"
  by (cases st) (auto simp add: create_url_opener_def Let_def split: option.split)

lemma inj_on_map_upd_fresh:
  assumes "inj_on m (dom m)" and "\<And>k' a. m k' = Some a \<Longrightarrow> a \<noteq> r"
  shows "inj_on (m(k \<mapsto> r)) (dom (m(k \<mapsto> r)))"
proof (rule inj_onI)
  fix x y
  assume x: "x \<in> dom (m(k \<mapsto> r))" and y: "y \<in> dom (m(k \<mapsto> r))"
    and eq: "(m(k \<mapsto> r)) x = (m(k \<mapsto> r)) y"
  show "x = y"
  proof (cases "x = k")
    case True
    then have "(m(k \<mapsto> r)) y = Some r" using eq by simp
    then show ?thesis using True assms(2) [of y r] by (cases "y = k") simp_all
  next
    case False
    then have mx: "m x = (m(k \<mapsto> r)) y" using eq by simp
    have xd: "x \<in> dom m" using x False by simp
    show ?thesis
    proof (cases "y = k")
      case True
      then have "m x = Some r" using mx by simp
      then show ?thesis using assms(2) [of x r] by simp
    next
      case yk: False
      then have "m x = m y" using mx by simp
      moreover have "y \<in> dom m" using y yk by simp
      ultimately show ?thesis using assms(1) xd by (meson inj_onD)
    qed
  qed
qed

lemma create_inv:
  assumes "cache_inv st"
  shows "cache_inv (snd (create_url_opener g st ca url u p ins mc))"
proof -
  define k where "k = (ca, ins, mc)"
  have lt: "\<And>k' a. opener_dict st k' = Some a \<Longrightarrow> a < next_ref st"
    and inj: "inj_on (opener_dict st) (dom (opener_dict st))"
    and alloc: "\<And>a. a < next_ref st \<Longrightarrow> heap st a \<noteq> None"
    using assms unfolding cache_inv_def by blast+
  show ?thesis
  proof (cases "opener_dict st k")
    case None
    have fresh: "\<And>k' a. opener_dict st k' = Some a \<Longrightarrow> a \<noteq> next_ref st"
      using lt by fastforce
    have i: "inj_on ((opener_dict st)(k \<mapsto> next_ref st))
          (dom ((opener_dict st)(k \<mapsto> next_ref st)))"
      using inj fresh by (rule inj_on_map_upd_fresh)
    have l: "\<forall>k' a. ((opener_dict st)(k \<mapsto> next_ref st)) k' = Some a
        \<longrightarrow> a < Suc (next_ref st)"
      using lt by (simp add: less_Suc_eq)
    have h: "\<forall>a. a < Suc (next_ref st) \<longrightarrow>
        ((heap st)(next_ref st \<mapsto> session_setup g ca u p ins mc)) a \<noteq> None"
      using alloc by (simp add: less_Suc_eq)
    show ?thesis
      using None i l h unfolding cache_inv_def k_def
      by (simp add: create_cases)
  next
    case (Some b)
    have l: "\<forall>k' a. opener_dict st k' = Some a \<longrightarrow> a < Suc (next_ref st)"
      using lt by (simp add: less_Suc_eq)
    have h: "\<forall>a. a < Suc (next_ref st) \<longrightarrow>
        ((heap st)(next_ref st \<mapsto> session_defaults g)) a \<noteq> None"
      using alloc by (simp add: less_Suc_eq)
    show ?thesis
      using Some inj l h unfolding cache_inv_def k_def
      by (simp add: create_cases)
  qed
qed

lemma create_dict_keep:
  "opener_dict st k = Some a \<Longrightarrow>
   opener_dict (snd (create_url_opener g st ca url u p ins mc)) k = Some a"
  by (auto simp add: create_cases split: option.split)

lemma create_heap_keep:
  "a < next_ref st \<Longrightarrow> heap (snd (create_url_opener g st ca url u p ins mc)) a = heap st a"
  by (auto simp add: create_cases split: option.split)

lemma create_next: "next_ref (snd (create_url_opener g st ca url u p ins mc)) = Suc (next_ref st)"
  by (auto simp add: create_cases split: option.split)

lemma create_returns:
  "opener_dict (snd (create_url_opener g st ca url u p ins mc)) (ca, ins, mc) =
     Some (fst (create_url_opener g st ca url u p ins mc))"
  by (auto simp add: create_cases split: option.split)

lemma create_hit:
  "opener_dict st (ca, ins, mc) = Some a \<Longrightarrow>
   fst (create_url_opener g st ca url u p ins mc) = a"
  by (simp add: create_cases)

lemma calls_inv: "cache_inv st \<Longrightarrow> cache_inv (calls g st cs)"
proof (induction cs arbitrary: st)
  case Nil
  then show ?case by simp
next
  case (Cons c cs)
  then show ?case by (cases c) (simp add: create_inv)
qed

lemma calls_dict_keep: "opener_dict st k = Some a \<Longrightarrow> opener_dict (calls g st cs) k = Some a"
proof (induction cs arbitrary: st)
  case Nil
  then show ?case by simp
next
  case (Cons c cs)
  then show ?case by (cases c) (simp add: create_dict_keep)
qed

lemma calls_heap_keep: "a < next_ref st \<Longrightarrow> heap (calls g st cs) a = heap st a"
proof (induction cs arbitrary: st)
  case Nil
  then show ?case by simp
next
  case (Cons c cs)
  obtain ca url u p ins mc where c: "c = (ca, url, u, p, ins, mc)"
    by (cases c) auto
  let ?st = "snd (create_url_opener g st ca url u p ins mc)"
  have "a < next_ref ?st" using Cons.prems by (simp add: create_next)
  then have "heap (calls g ?st cs) a = heap ?st a" by (rule Cons.IH)
  then show ?case using Cons.prems by (simp add: c create_heap_keep)
qed

lemma calls_next: "next_ref st \<le> next_ref (calls g st cs)"
proof (induction cs arbitrary: st)
  case Nil
  then show ?case by simp
next
  case (Cons c cs)
  obtain ca url u p ins mc where c: "c = (ca, url, u, p, ins, mc)"
    by (cases c) auto
  show ?case
    using Cons.IH [of "snd (create_url_opener g st ca url u p ins mc)"]
    by (simp add: c create_next)
qed

text \<open>
  C9. In any state that calls lead to from the empty cache, take a call and, after any
  further calls, a second call. If the second call has the same key
  \<open>(ssl_ca_certs, insecure, manage_cookies)\<close>, it returns the same session object (the
  same reference), and that session is on the heap after the second call exactly as the
  first call left it: certificate, verification, auth and headers are unchanged,
  whatever credentials the second call carries. If the key differs, the second call
  returns another session object.
\<close>

theorem session_reused_per_key:
  assumes first: "create_url_opener g (calls g URLOpenerCache_init cs0) ca url1 u1 p1 ins mc
                    = (a1, st1)"
    and second: "create_url_opener g (calls g st1 cs) ca2 url2 u2 p2 ins2 mc2 = (a2, st3)"
  shows "((ca2, ins2, mc2) = (ca, ins, mc) \<longrightarrow>
            a2 = a1 \<and> heap st3 a1 = heap st1 a1 \<and> heap st1 a1 \<noteq> None) \<and>
         ((ca2, ins2, mc2) \<noteq> (ca, ins, mc) \<longrightarrow> a2 \<noteq> a1)"
proof -
  let ?st0 = "calls g URLOpenerCache_init cs0"
  let ?st2 = "calls g st1 cs"
  have inv0: "cache_inv ?st0" by (simp add: calls_inv cache_inv_init)
  have st1: "st1 = snd (create_url_opener g ?st0 ca url1 u1 p1 ins mc)"
    and a1: "a1 = fst (create_url_opener g ?st0 ca url1 u1 p1 ins mc)"
    using first by simp_all
  have st3: "st3 = snd (create_url_opener g ?st2 ca2 url2 u2 p2 ins2 mc2)"
    and a2: "a2 = fst (create_url_opener g ?st2 ca2 url2 u2 p2 ins2 mc2)"
    using second by simp_all
  have inv1: "cache_inv st1" unfolding st1 using inv0 by (rule create_inv)
  have inv2: "cache_inv ?st2" using inv1 by (rule calls_inv)
  have d1: "opener_dict st1 (ca, ins, mc) = Some a1"
    unfolding st1 a1 by (rule create_returns)
  have lt1: "a1 < next_ref st1" using inv1 d1 by (auto simp add: cache_inv_def)
  have d2: "opener_dict ?st2 (ca, ins, mc) = Some a1" using d1 by (rule calls_dict_keep)
  have lt2: "a1 < next_ref ?st2" using lt1 calls_next [of st1 g cs] by simp
  have h2: "heap ?st2 a1 = heap st1 a1" using lt1 by (rule calls_heap_keep)
  have h3: "heap st3 a1 = heap ?st2 a1" unfolding st3 using lt2 by (rule create_heap_keep)
  have alloc: "heap st1 a1 \<noteq> None"
    using inv1 lt1 by (simp add: cache_inv_def)
  show ?thesis
  proof (cases "(ca2, ins2, mc2) = (ca, ins, mc)")
    case True
    then have "a2 = a1"
      unfolding a2 using d2 by (simp add: create_hit)
    then show ?thesis using True h2 h3 alloc by simp
  next
    case False
    have "a2 \<noteq> a1"
    proof (cases "opener_dict ?st2 (ca2, ins2, mc2)")
      case None
      then have "a2 = next_ref ?st2"
        unfolding a2 by (simp add: create_cases)
      then show ?thesis using lt2 by simp
    next
      case (Some b)
      then have b: "a2 = b"
        unfolding a2 by (simp add: create_cases)
      have inj: "inj_on (opener_dict ?st2) (dom (opener_dict ?st2))"
        using inv2 by (simp add: cache_inv_def)
      show ?thesis
      proof
        assume "a2 = a1"
        then have "opener_dict ?st2 (ca2, ins2, mc2) = opener_dict ?st2 (ca, ins, mc)"
          using Some d2 b by simp
        moreover have "(ca2, ins2, mc2) \<in> dom (opener_dict ?st2)"
          using Some by blast
        moreover have "(ca, ins, mc) \<in> dom (opener_dict ?st2)"
          using d2 by blast
        ultimately have "(ca2, ins2, mc2) = (ca, ins, mc)"
          using inj by (meson inj_onD)
        then show False using False by simp
      qed
    qed
    then show ?thesis using False by simp
  qed
qed

lemma first_call_value:
  "fst first_call = 0"
  "map_option auth (heap (snd first_call) 0) = Some (Some (''bar'', ''baz''))"
  by (simp_all add: first_call_def create_cases URLOpenerCache_init_def session_setup_def
      requests_globals_def)

theorem session_reused_per_key_witness:
  "fst first_call = 0 \<and>
   fst same_key_call = fst first_call \<and>
   heap (snd same_key_call) (fst first_call) = heap (snd first_call) (fst first_call) \<and>
   map_option auth (heap (snd same_key_call) 0) = Some (Some (''bar'', ''baz'')) \<and>
   fst other_key_call \<noteq> fst first_call"
proof -
  have c1: "create_url_opener requests_globals (calls requests_globals URLOpenerCache_init [])
       None (Some ''http://localhost/'') (Some ''bar'') (Some ''baz'') False False =
       (fst first_call, snd first_call)"
    by (simp add: first_call_def)
  have c2: "create_url_opener requests_globals (calls requests_globals (snd first_call) calls_between)
       None (Some ''http://example.org/'') (Some ''eve'') (Some ''pw'') False False =
       (fst same_key_call, snd same_key_call)"
    by (simp add: same_key_call_def)
  have c3: "create_url_opener requests_globals (calls requests_globals (snd first_call) calls_between)
       None (Some ''http://example.org/'') None None True False =
       (fst other_key_call, snd other_key_call)"
    by (simp add: other_key_call_def)
  show ?thesis
    using session_reused_per_key [OF c1 c2] session_reused_per_key [OF c1 c3] first_call_value
    by simp
qed

text \<open>
  \<^verbatim>\<open>open_url\<close> asks the cache for the session of the key \<open>(None, False, False)\<close>,
  with the credentials that \<^verbatim>\<open>auth_data_from_url\<close> took out of the URL.
\<close>

lemma open_url_state:
  "snd (open_url g e st url) =
     (case auth_data_from_url url of
        Inl err \<Rightarrow> st
      | Inr (url1, (username, password)) \<Rightarrow>
          snd (create_url_opener g st None (Some url1) username password False False))"
  by (simp add: open_url_def HTTPClient_init_def Let_def split: sum.split prod.split)

text \<open>
  C10. When a call of the cache creates a session (its key is not in the dictionary) and
  a fresh session carries no auth, the session it stores has basic auth exactly when both
  the username and the password are there and not empty; with a username and no
  password it has none.
\<close>

theorem new_session_basic_auth:
  assumes miss: "(ssl_ca_certs, insecure, manage_cookies) \<notin> dom (opener_dict st)"
    and dflt: "auth (session_defaults g) = None"
    and call: "create_url_opener g st ssl_ca_certs url username password insecure
                 manage_cookies = (r, st1)"
  shows "map_option auth (heap st1 r) =
     Some (case (username, password) of
             (Some u, Some p) \<Rightarrow> if u \<noteq> [] \<and> p \<noteq> [] then Some (u, p) else None
           | _ \<Rightarrow> None)"
proof -
  have none: "opener_dict st (ssl_ca_certs, insecure, manage_cookies) = None"
    using miss by (simp add: dom_def)
  have "heap st1 r =
      Some (session_setup g ssl_ca_certs username password insecure manage_cookies)"
    using call none by (auto simp add: create_cases)
  then show ?thesis
    using dflt by (simp add: session_setup_def Let_def split: option.split)
qed

theorem new_session_basic_auth_witness:
  "(None, False, False) \<notin> dom (opener_dict URLOpenerCache_init) \<and>
   auth (session_defaults requests_globals) = None \<and>
   auth_data_from_url ''http://bar@localhost/'' =
     Inr (''http://localhost/'', (Some ''bar'', None)) \<and>
   map_option auth
     (heap (snd (create_url_opener requests_globals URLOpenerCache_init None
                   (Some ''http://localhost/'') (Some ''bar'') None False False))
        (fst (create_url_opener requests_globals URLOpenerCache_init None
                   (Some ''http://localhost/'') (Some ''bar'') None False False))) = Some None \<and>
   map_option auth
     (heap (snd (open_url requests_globals env_refused URLOpenerCache_init
                   ''http://bar@localhost/'')) 0) = Some None"
proof -
  have m: "(None, False, False) \<notin> dom (opener_dict URLOpenerCache_init)"
    by (simp add: URLOpenerCache_init_def)
  have d: "auth (session_defaults requests_globals) = None"
    by (simp add: requests_globals_def)
  have c: "create_url_opener requests_globals URLOpenerCache_init None
             (Some ''http://localhost/'') (Some ''bar'') None False False =
           (fst (create_url_opener requests_globals URLOpenerCache_init None
                   (Some ''http://localhost/'') (Some ''bar'') None False False),
            snd (create_url_opener requests_globals URLOpenerCache_init None
                   (Some ''http://localhost/'') (Some ''bar'') None False False))"
    by simp
  have u: "auth_data_from_url ''http://bar@localhost/'' =
     Inr (''http://localhost/'', (Some ''bar'', None))"
    by (simp add: auth_data_from_url_def str_in_def split1_def rsplit1_def str_rfind_def)
  have r: "fst (create_url_opener requests_globals URLOpenerCache_init None
                   (Some ''http://localhost/'') (Some ''bar'') None False False) = 0"
    by (simp add: create_cases URLOpenerCache_init_def)
  show ?thesis
    using m d u r new_session_basic_auth [OF m d c] by (simp add: open_url_state)
qed

end
